theory Spec2Isabelle
  imports Complex_Main
begin

section \<open>A GPT-2 style transformer (notebooks/01-Transformer101.ipynb)\<close>

text \<open>
  The notebook defines the modules \<open>EmbeddingLayer\<close>, \<open>PositionEmbedding\<close>,
  \<open>UnembeddingLayer\<close>, \<open>LayerNorm\<close>, \<open>SelfAttention\<close>, \<open>MLP\<close>, \<open>TransformerBlock\<close>,
  \<open>Transformer\<close> and the functions \<open>gelu_new\<close> and \<open>cross_entropy_lm\<close>.

  Tensors are nested lists, outermost axis first. Scalars are ideal reals: rounding,
  overflow and NaN of 32-bit floats are outside this development. Where the source would
  produce NaN (a variance over a single channel, a division by \<open>sqrt 0\<close>), the
  well-formedness predicates below exclude the input.
  Exceptions of the source are values of \<open>error\<close>; a function that can raise returns
  \<open>error + 'a\<close>.
\<close>

datatype error = IndexError | RuntimeError | TypeError | AttributeError

type_synonym tensor1 = "real list"
type_synonym tensor2 = "real list list"
type_synonym tensor3 = "real list list list"
type_synonym tensor4 = "real list list list list"

subsection \<open>Elementwise and reduction helpers\<close>

definition dot :: "real list \<Rightarrow> real list \<Rightarrow> real" where
  "dot xs ys = sum_list (map2 (*) xs ys)"

definition add1 :: "tensor1 \<Rightarrow> tensor1 \<Rightarrow> tensor1" where
  "add1 xs ys = map2 (+) xs ys"

definition add2 :: "tensor2 \<Rightarrow> tensor2 \<Rightarrow> tensor2" where
  "add2 xs ys = map2 add1 xs ys"

definition add3 :: "tensor3 \<Rightarrow> tensor3 \<Rightarrow> tensor3" where
  "add3 xs ys = map2 add2 xs ys"


text \<open>\<open>shape3 t b p d\<close>: the tensor \<open>t\<close> has shape \<open>[b, p, d]\<close>.\<close>

definition shape2 :: "'a list list \<Rightarrow> nat \<Rightarrow> nat \<Rightarrow> bool" where
  "shape2 t p d \<longleftrightarrow> length t = p \<and> list_all (\<lambda>r. length r = d) t"

definition shape3 :: "'a list list list \<Rightarrow> nat \<Rightarrow> nat \<Rightarrow> nat \<Rightarrow> bool" where
  "shape3 t b p d \<longleftrightarrow> length t = b \<and> list_all (\<lambda>m. shape2 m p d) t"

subsection \<open>gelu_new\<close>

text \<open>
  \<^verbatim>\<open>return 0.5*input* (1.0 + torch.tanh(math.sqrt(2.0/math.pi) *
                        (input + 0.04715 *torch.pow(input, 3.0))))\<close>
\<close>

definition gelu_new :: "real \<Rightarrow> real" where
  "gelu_new input =
     0.5 * input * (1.0 + tanh (sqrt (2.0 / pi) * (input + 0.04715 * input ^ 3)))"

text \<open>
  The formula of the specification, with the published GPT-2 coefficient. It is stated
  from the specification's words and is only compared with \<open>gelu_new\<close>.
\<close>

definition gelu_new_spec :: "real \<Rightarrow> real" where
  "gelu_new_spec x = 0.5 * x * (1 + tanh (sqrt (2 / pi) * (x + 0.044715 * x ^ 3)))"

subsection \<open>LayerNorm\<close>

record LayerNorm =
  gains :: tensor1
  bias :: tensor1
  layer_norm_eps :: real

text \<open>\<open>tensor.mean(dim=-1)\<close> on one row.\<close>

definition mean :: "real list \<Rightarrow> real" where
  "mean xs = sum_list xs / real (length xs)"

text \<open>
  \<open>tensor.var(dim=-1)\<close> on one row. The call in \<open>LayerNorm.forward\<close> passes neither
  \<open>unbiased\<close> nor \<open>correction\<close>, so torch applies Bessel's correction: the divisor
  is the number of channels minus one.
\<close>

definition var :: "real list \<Rightarrow> real" where
  "var xs = sum_list (map (\<lambda>x. (x - mean xs) ^ 2) xs) / (real (length xs) - 1)"

text \<open>The variance with divisor \<open>d_model\<close>, as the specification words it.\<close>

definition var_biased_spec :: "real list \<Rightarrow> real" where
  "var_biased_spec xs = sum_list (map (\<lambda>x. (x - mean xs) ^ 2) xs) / real (length xs)"

definition LayerNorm_row :: "LayerNorm \<Rightarrow> tensor1 \<Rightarrow> tensor1" where
  "LayerNorm_row self input =
     (let layer_mean = mean input;
          input_centered = map (\<lambda>x. x - layer_mean) input;
          layer_var = var input_centered;
          layer_scale = sqrt (layer_var + layer_norm_eps self);
          input_normalized = map (\<lambda>x. x / layer_scale) input_centered
      in add1 (map2 (*) input_normalized (gains self)) (bias self))"

definition LayerNorm_forward :: "LayerNorm \<Rightarrow> tensor3 \<Rightarrow> tensor3" where
  "LayerNorm_forward self input = map (map (LayerNorm_row self)) input"

text \<open>The row function of the specification: the same steps with the biased variance.\<close>

definition LayerNorm_row_spec :: "LayerNorm \<Rightarrow> tensor1 \<Rightarrow> tensor1" where
  "LayerNorm_row_spec self x =
     map2 (+) (map2 (*) (map (\<lambda>v. (v - mean x) / sqrt (var_biased_spec x + layer_norm_eps self)) x)
                 (gains self)) (bias self)"

definition wf_LayerNorm :: "nat \<Rightarrow> LayerNorm \<Rightarrow> bool" where
  "wf_LayerNorm d_model self \<longleftrightarrow>
     2 \<le> d_model \<and> length (gains self) = d_model \<and> length (bias self) = d_model \<and>
     0 < layer_norm_eps self"

subsection \<open>Embedding, positional embedding, unembedding\<close>

text \<open>Running a fallible function over a list stops at the first exception.\<close>

fun traverse :: "('a \<Rightarrow> error + 'b) \<Rightarrow> 'a list \<Rightarrow> error + 'b list" where
  "traverse f [] = Inr []"
| "traverse f (x # xs) =
     (case f x of Inl e \<Rightarrow> Inl e
      | Inr y \<Rightarrow> (case traverse f xs of Inl e \<Rightarrow> Inl e | Inr ys \<Rightarrow> Inr (y # ys)))"

record EmbeddingLayer =
  W_E :: tensor2

text \<open>
  \<open>self.W_E[input_tokens,:]\<close> for one entry of the index tensor. Indexing a tensor
  with an integer tensor accepts an index \<open>i\<close> with \<open>-n \<le> i < n\<close>, where \<open>n\<close> is the
  number of rows, and counts a negative one from the end; any other index raises
  IndexError.
\<close>

definition index_row :: "tensor2 \<Rightarrow> int \<Rightarrow> error + tensor1" where
  "index_row W i =
     (let n = int (length W)
      in if - n \<le> i \<and> i < n then Inr (W ! nat (if i < 0 then i + n else i))
         else Inl IndexError)"

definition EmbeddingLayer_forward :: "EmbeddingLayer \<Rightarrow> int list list \<Rightarrow> error + tensor3" where
  "EmbeddingLayer_forward self input_tokens =
     traverse (traverse (index_row (W_E self))) input_tokens"

record PositionEmbedding =
  W_P :: tensor2

text \<open>\<open>input_tokens.shape[1]\<close> of a token tensor with at least one row.\<close>

definition shape_1 :: "'a list list \<Rightarrow> nat" where
  "shape_1 t = (case t of [] \<Rightarrow> 0 | r # _ \<Rightarrow> length r)"

text \<open>
  \<open>repeat(self.W_P[:input_tokens.shape[1],:], "pos d_model -> batch pos d_model",
  batch = input_tokens.shape[0])\<close>: a slice never raises, it stops at the end of the
  table.
\<close>

definition PositionEmbedding_forward :: "PositionEmbedding \<Rightarrow> int list list \<Rightarrow> tensor3" where
  "PositionEmbedding_forward self input_tokens =
     replicate (length input_tokens) (take (shape_1 input_tokens) (W_P self))"

record UnembeddingLayer =
  W_U :: tensor2
  b_U :: tensor1

text \<open>\<open>einsum(x, M, "d_in, d_in d_out -> d_out")\<close> for one position.\<close>

definition vecmat :: "tensor1 \<Rightarrow> tensor2 \<Rightarrow> tensor1" where
  "vecmat x M = map (\<lambda>j. sum_list (map2 (\<lambda>xd row. xd * row ! j) x M)) [0..<shape_1 M]"

definition UnembeddingLayer_forward :: "UnembeddingLayer \<Rightarrow> tensor3 \<Rightarrow> tensor3" where
  "UnembeddingLayer_forward self resid_embed_last =
     map (map (\<lambda>x. add1 (vecmat x (W_U self)) (b_U self))) resid_embed_last"

subsection \<open>SelfAttention\<close>

record SelfAttention =
  W_Q :: tensor3
  b_Q :: tensor2
  W_K :: tensor3
  b_K :: tensor2
  W_V :: tensor3
  b_V :: tensor2
  W_O :: tensor3
  b_O :: tensor1
  mask_val :: real

text \<open>The default of the constructor argument \<open>mask_val = -1e5\<close>.\<close>

definition mask_val_default :: real where
  "mask_val_default = - 100000"

text \<open>
  \<open>einsum(resid_pre, W, "batch pos d_model, n_heads d_model d_head -> batch pos n_heads
  d_head") + b\<close>
\<close>

definition project_heads :: "tensor3 \<Rightarrow> tensor2 \<Rightarrow> tensor3 \<Rightarrow> tensor4" where
  "project_heads W b resid_pre =
     map (map (\<lambda>x. map2 (\<lambda>Wh bh. add1 (vecmat x Wh) bh) W b)) resid_pre"

text \<open>
  \<open>einsum(queries, keys, "batch query_pos n_heads d_head, batch key_pos n_heads d_head
  -> batch n_heads query_pos key_pos")\<close>
\<close>

definition attn_scores :: "nat \<Rightarrow> tensor4 \<Rightarrow> tensor4 \<Rightarrow> tensor4" where
  "attn_scores n_heads queries keys =
     map2 (\<lambda>qb kb. map (\<lambda>h. map (\<lambda>q. map (\<lambda>k. dot (q ! h) (k ! h)) kb) qb) [0..<n_heads])
       queries keys"

text \<open>\<open>attn_pattern /= math.sqrt(self.W_Q.shape[-1])\<close>\<close>

definition shape_last3 :: "'a list list list \<Rightarrow> nat" where
  "shape_last3 W = (case W of [] \<Rightarrow> 0 | M # _ \<Rightarrow> shape_1 M)"

definition scale_scores :: "real \<Rightarrow> tensor4 \<Rightarrow> tensor4" where
  "scale_scores c t = map (map (map (map (\<lambda>s. s / c)))) t"

text \<open>\<open>torch.triu(torch.ones(n, m), diagonal=1).bool()\<close>\<close>

definition triu_mask :: "nat \<Rightarrow> nat \<Rightarrow> bool list list" where
  "triu_mask n m = map (\<lambda>i. map (\<lambda>j. i + 1 \<le> j) [0..<m]) [0..<n]"

text \<open>\<open>attn_pattern.masked_fill_(mask, self.mask_val)\<close>, the mask broadcast over batch and head.\<close>

definition masked_fill :: "bool list list \<Rightarrow> real \<Rightarrow> tensor4 \<Rightarrow> tensor4" where
  "masked_fill msk v t = map (map (\<lambda>A. map2 (map2 (\<lambda>s m. if m then v else s)) A msk)) t"

text \<open>\<open>nn.Softmax(dim=-1)\<close> on one row.\<close>

definition softmax :: "real list \<Rightarrow> real list" where
  "softmax xs = map (\<lambda>x. exp x / sum_list (map exp xs)) xs"

definition softmax_last :: "tensor4 \<Rightarrow> tensor4" where
  "softmax_last t = map (map (map softmax)) t"

text \<open>The attention pattern after scaling, masking and softmax, in the order of the source.\<close>

definition attn_pattern :: "SelfAttention \<Rightarrow> tensor3 \<Rightarrow> tensor4" where
  "attn_pattern self resid_pre =
     (let keys = project_heads (W_K self) (b_K self) resid_pre;
          queries = project_heads (W_Q self) (b_Q self) resid_pre;
          raw = attn_scores (length (W_Q self)) queries keys;
          scaled = scale_scores (sqrt (real (shape_last3 (W_Q self)))) raw;
          msk = triu_mask (shape_1 resid_pre) (shape_1 resid_pre);
          filled = masked_fill msk (mask_val self) scaled
      in softmax_last filled)"

text \<open>
  \<open>einsum(attn_pattern, values, "batch n_heads query_pos key_pos, batch key_pos n_heads
  d_head -> batch n_heads query_pos d_head")\<close>
\<close>

definition context_vec :: "nat \<Rightarrow> tensor4 \<Rightarrow> tensor4 \<Rightarrow> tensor4" where
  "context_vec d_head pattern vals =
     map2 (\<lambda>Ab vb.
        map (\<lambda>(h, Ah).
           map (\<lambda>arow. map (\<lambda>e. sum_list (map2 (\<lambda>a v. a * v ! h ! e) arow vb)) [0..<d_head]) Ah)
          (enumerate 0 Ab))
       pattern vals"

text \<open>
  \<open>einsum(context_vec, self.W_O, "batch n_heads query_pos d_head, n_heads d_head d_model
  -> batch query_pos d_model") + self.b_O\<close>
\<close>

definition output_heads :: "nat \<Rightarrow> tensor3 \<Rightarrow> tensor1 \<Rightarrow> tensor4 \<Rightarrow> tensor3" where
  "output_heads n_pos W b ctx =
     map (\<lambda>cb.
        map (\<lambda>q. add1
              (map (\<lambda>m. sum_list (map2 (\<lambda>ch Wh. sum_list (map2 (\<lambda>c wrow. c * wrow ! m) (ch ! q) Wh)) cb W))
                 [0..<shape_last3 W])
              b)
          [0..<n_pos])
       ctx"

definition SelfAttention_forward :: "SelfAttention \<Rightarrow> tensor3 \<Rightarrow> tensor3" where
  "SelfAttention_forward self resid_pre =
     (let vals = project_heads (W_V self) (b_V self) resid_pre;
          pattern = attn_pattern self resid_pre;
          ctx = context_vec (shape_last3 (W_V self)) pattern vals
      in output_heads (shape_1 resid_pre) (W_O self) (b_O self) ctx)"

definition wf_SelfAttention :: "nat \<Rightarrow> nat \<Rightarrow> nat \<Rightarrow> SelfAttention \<Rightarrow> bool" where
  "wf_SelfAttention n_heads d_model d_head self \<longleftrightarrow>
     1 \<le> n_heads \<and> 1 \<le> d_model \<and> 1 \<le> d_head \<and>
     shape3 (W_Q self) n_heads d_model d_head \<and> shape2 (b_Q self) n_heads d_head \<and>
     shape3 (W_K self) n_heads d_model d_head \<and> shape2 (b_K self) n_heads d_head \<and>
     shape3 (W_V self) n_heads d_model d_head \<and> shape2 (b_V self) n_heads d_head \<and>
     shape3 (W_O self) n_heads d_head d_model \<and> length (b_O self) = d_model"

subsection \<open>MLP\<close>

text \<open>\<open>nn.Linear(in_features, out_features)\<close>: the weight has shape \<open>[out, in]\<close>.\<close>

record Linear =
  weight :: tensor2
  linear_bias :: tensor1

definition Linear_forward :: "Linear \<Rightarrow> tensor3 \<Rightarrow> tensor3" where
  "Linear_forward self input = map (map (\<lambda>x. map2 (\<lambda>w b. dot x w + b) (weight self) (linear_bias self))) input"

record MLP =
  input_layer :: Linear
  output_layer :: Linear

definition MLP_forward :: "MLP \<Rightarrow> tensor3 \<Rightarrow> tensor3" where
  "MLP_forward self resid_attended =
     (let pre_act = Linear_forward (input_layer self) resid_attended;
          act = map (map (map gelu_new)) pre_act
      in Linear_forward (output_layer self) act)"

definition wf_Linear :: "nat \<Rightarrow> nat \<Rightarrow> Linear \<Rightarrow> bool" where
  "wf_Linear n_in n_out self \<longleftrightarrow> shape2 (weight self) n_out n_in \<and> length (linear_bias self) = n_out"

definition wf_MLP :: "nat \<Rightarrow> nat \<Rightarrow> MLP \<Rightarrow> bool" where
  "wf_MLP d_mlp d_model self \<longleftrightarrow>
     wf_Linear d_model d_mlp (input_layer self) \<and> wf_Linear d_mlp d_model (output_layer self)"

subsection \<open>TransformerBlock\<close>

record TransformerBlock =
  ln1 :: LayerNorm
  attn :: SelfAttention
  ln2 :: LayerNorm
  mlp :: MLP

definition TransformerBlock_forward :: "TransformerBlock \<Rightarrow> tensor3 \<Rightarrow> tensor3" where
  "TransformerBlock_forward self resid_pre =
     (let ln1_out = LayerNorm_forward (ln1 self) resid_pre;
          attn_out = SelfAttention_forward (attn self) ln1_out;
          resid_mid = add3 resid_pre attn_out;
          ln2_out = LayerNorm_forward (ln2 self) resid_mid;
          resid_post = add3 resid_mid (MLP_forward (mlp self) ln2_out)
      in resid_post)"

text \<open>
  The shapes that \<open>TransformerBlock.__init__\<close> gives its parameters; the block builds its
  \<open>SelfAttention\<close> with the default mask value and its layer norms with the default epsilon.
\<close>

definition wf_TransformerBlock :: "nat \<Rightarrow> nat \<Rightarrow> nat \<Rightarrow> nat \<Rightarrow> TransformerBlock \<Rightarrow> bool" where
  "wf_TransformerBlock d_model d_mlp d_head n_heads self \<longleftrightarrow>
     wf_LayerNorm d_model (ln1 self) \<and> layer_norm_eps (ln1 self) = 1 / 100000 \<and>
     wf_SelfAttention n_heads d_model d_head (attn self) \<and>
     mask_val (attn self) = mask_val_default \<and>
     wf_LayerNorm d_model (ln2 self) \<and> layer_norm_eps (ln2 self) = 1 / 100000 \<and>
     wf_MLP d_mlp d_model (mlp self)"

subsection \<open>Transformer\<close>

record Transformer =
  embed :: EmbeddingLayer
  pos_embed :: PositionEmbedding
  transformer :: "TransformerBlock list"
  ln_final :: LayerNorm
  unembed :: UnembeddingLayer

text \<open>
  \<open>embedded + pos_embed\<close> on one batch element. Both operands have \<open>d_model\<close> channels;
  along the position axis torch adds elementwise when the sizes agree, broadcasts an
  operand of size one, and raises RuntimeError otherwise.
\<close>

definition add_broadcast_pos :: "tensor2 \<Rightarrow> tensor2 \<Rightarrow> error + tensor2" where
  "add_broadcast_pos x y =
     (if length x = length y then Inr (add2 x y)
      else if length y = 1 then Inr (map (\<lambda>r. add1 r (hd y)) x)
      else if length x = 1 then Inr (map (\<lambda>r. add1 (hd x) r) y)
      else Inl RuntimeError)"

definition add_embeddings :: "tensor3 \<Rightarrow> tensor3 \<Rightarrow> error + tensor3" where
  "add_embeddings embedded pe = traverse (\<lambda>(x, y). add_broadcast_pos x y) (zip embedded pe)"

text \<open>
  \<^verbatim>\<open>for i in range(len(self.transformer)):
    resid = self.transformer[i](resid)\<close>
\<close>

function run_blocks :: "TransformerBlock list \<Rightarrow> nat \<Rightarrow> tensor3 \<Rightarrow> tensor3" where
  "run_blocks blocks i resid =
     (if i < length blocks then run_blocks blocks (Suc i) (TransformerBlock_forward (blocks ! i) resid)
      else resid)"
  by pat_completeness auto
termination
  by (relation "measure (\<lambda>(blocks, i, resid). length blocks - i)") auto

declare run_blocks.simps [simp del]

definition Transformer_forward :: "Transformer \<Rightarrow> int list list \<Rightarrow> error + tensor3" where
  "Transformer_forward self tokens =
     (case EmbeddingLayer_forward (embed self) tokens of
        Inl e \<Rightarrow> Inl e
      | Inr embedded \<Rightarrow>
          (let pe = PositionEmbedding_forward (pos_embed self) tokens
           in case add_embeddings embedded pe of
                Inl e \<Rightarrow> Inl e
              | Inr resid0 \<Rightarrow>
                  (let resid = run_blocks (transformer self) 0 resid0;
                       resid_normalized_final = LayerNorm_forward (ln_final self) resid;
                       logits = UnembeddingLayer_forward (unembed self) resid_normalized_final
                   in Inr logits)))"

definition wf_Transformer ::
  "nat \<Rightarrow> nat \<Rightarrow> nat \<Rightarrow> nat \<Rightarrow> nat \<Rightarrow> nat \<Rightarrow> Transformer \<Rightarrow> bool" where
  "wf_Transformer d_vocab d_model max_ctx d_mlp d_head n_heads self \<longleftrightarrow>
     shape2 (W_E (embed self)) d_vocab d_model \<and>
     shape2 (W_P (pos_embed self)) max_ctx d_model \<and>
     list_all (wf_TransformerBlock d_model d_mlp d_head n_heads) (transformer self) \<and>
     wf_LayerNorm d_model (ln_final self) \<and>
     shape2 (W_U (unembed self)) d_model d_vocab \<and> length (b_U (unembed self)) = d_vocab"

text \<open>A token tensor of shape \<open>[batch, position]\<close> with every id in \<open>[0, d_vocab)\<close>.\<close>

definition valid_tokens :: "nat \<Rightarrow> nat \<Rightarrow> nat \<Rightarrow> int list list \<Rightarrow> bool" where
  "valid_tokens d_vocab batch position tokens \<longleftrightarrow>
     shape2 tokens batch position \<and>
     list_all (list_all (\<lambda>t. 0 \<le> t \<and> t < int d_vocab)) tokens"

subsection \<open>cross_entropy_lm\<close>

text \<open>\<open>nn.LogSoftmax(dim=-1)\<close> on one row.\<close>

definition log_softmax :: "real list \<Rightarrow> real list" where
  "log_softmax xs = map (\<lambda>x. x - ln (sum_list (map exp xs))) xs"

text \<open>
  \<open>torch.gather\<close> along the last axis, for one index: the index must lie in
  \<open>[0, size)\<close>, otherwise torch raises RuntimeError.
\<close>

definition gather_last :: "tensor1 \<Rightarrow> int \<Rightarrow> error + real" where
  "gather_last row i = (if 0 \<le> i \<and> i < int (length row) then Inr (row ! nat i) else Inl RuntimeError)"

text \<open>
  \<^verbatim>\<open>log_probs = nn.LogSoftmax(dim=-1)(logits)
pred_log_probs = torch.gather(log_probs[:,:-1,:],dim=-1,
    index = tokens[:,1:].unsqueeze(dim=-1)).squeeze(dim=-1)
return pred_log_probs.mean(dim=-1)\<close>
\<close>

definition cross_entropy_lm :: "tensor3 \<Rightarrow> int list list \<Rightarrow> error + tensor1" where
  "cross_entropy_lm logits tokens =
     (let log_probs = map (map log_softmax) logits
      in case traverse (\<lambda>(lp, tk). traverse (\<lambda>(row, i). gather_last row i) (zip (butlast lp) (tl tk)))
                (zip log_probs tokens) of
           Inl e \<Rightarrow> Inl e
         | Inr pred_log_probs \<Rightarrow> Inr (map mean pred_log_probs))"

subsection \<open>Config and the constructors\<close>

text \<open>
  The constructors are modelled up to the shapes of the parameters they create (the
  values are random draws). A constructor returns the record of what it built, or the
  exception it raised. Python values that a configuration attribute can hold:
\<close>

datatype pyval = PyInt int | PyFloat real | PyStr string | PyNone | PyList "pyval list"

type_synonym config = "string \<rightharpoonup> pyval"

text \<open>
  \<^verbatim>\<open>class Config:
    d_model = 256
    d_head = 64
    n_heads = 5
    d_mlp = 1024
    d_vocab = 50257
    layer_norm_eps = 1e-5
    init_std = 0.02
    max_ctx = MAX_CTX_LENGTH
    batch_size = BATCH_SIZE\<close>
  with \<open>MAX_CTX_LENGTH = 512\<close> and \<open>BATCH_SIZE = 4\<close>.
\<close>

definition Config :: config where
  "Config =
     [''d_model'' \<mapsto> PyInt 256, ''d_head'' \<mapsto> PyInt 64, ''n_heads'' \<mapsto> PyInt 5,
      ''d_mlp'' \<mapsto> PyInt 1024, ''d_vocab'' \<mapsto> PyInt 50257,
      ''layer_norm_eps'' \<mapsto> PyFloat (1 / 100000), ''init_std'' \<mapsto> PyFloat 0.02,
      ''max_ctx'' \<mapsto> PyInt 512, ''batch_size'' \<mapsto> PyInt 4]"

text \<open>\<open>config.name\<close>\<close>

definition getattr :: "config \<Rightarrow> string \<Rightarrow> error + pyval" where
  "getattr c name = (case c name of None \<Rightarrow> Inl AttributeError | Some v \<Rightarrow> Inr v)"

text \<open>\<open>iter(v)\<close>, as the \<open>for\<close> clause of a comprehension calls it.\<close>

fun py_iter :: "pyval \<Rightarrow> error + pyval list" where
  "py_iter (PyList xs) = Inr xs"
| "py_iter (PyStr s) = Inr (map (\<lambda>c. PyStr [c]) s)"
| "py_iter (PyInt n) = Inl TypeError"
| "py_iter (PyFloat r) = Inl TypeError"
| "py_iter PyNone = Inl TypeError"

text \<open>
  \<open>torch.empty(*sizes)\<close>: every size must be an integer (TypeError) and none may be
  negative (RuntimeError).
\<close>

fun is_int :: "pyval \<Rightarrow> bool" where
  "is_int (PyInt n) = True"
| "is_int v = False"

fun int_of :: "pyval \<Rightarrow> int" where
  "int_of (PyInt n) = n"
| "int_of v = 0"

definition torch_empty :: "pyval list \<Rightarrow> error + nat list" where
  "torch_empty sizes =
     (if \<not> list_all is_int sizes then Inl TypeError
      else if \<not> list_all (\<lambda>v. 0 \<le> int_of v) sizes then Inl RuntimeError
      else Inr (map (\<lambda>v. nat (int_of v)) sizes))"

text \<open>\<open>nn.init.normal_(tensor, std=init_std)\<close>: the deviation must be a number and not negative.\<close>

fun init_normal :: "pyval \<Rightarrow> error + unit" where
  "init_normal (PyFloat r) = (if r < 0 then Inl RuntimeError else Inr ())"
| "init_normal (PyInt n) = (if n < 0 then Inl RuntimeError else Inr ())"
| "init_normal v = Inl TypeError"

text \<open>The modules a constructor has built, each with the shapes of its parameters.\<close>

datatype built =
    Built_EmbeddingLayer "nat list"
  | Built_PositionEmbedding "nat list"
  | Built_LayerNorm "nat list"
  | Built_SelfAttention "nat list" "nat list"
  | Built_MLP "nat list"
  | Built_TransformerBlock built built built built
  | Built_UnembeddingLayer "nat list"

definition EmbeddingLayer_init :: "pyval \<Rightarrow> pyval \<Rightarrow> pyval \<Rightarrow> error + built" where
  "EmbeddingLayer_init d_vocab d_model init_std =
     (case torch_empty [d_vocab, d_model] of Inl e \<Rightarrow> Inl e
      | Inr sh \<Rightarrow> (case init_normal init_std of Inl e \<Rightarrow> Inl e
                   | Inr u \<Rightarrow> Inr (Built_EmbeddingLayer sh)))"

definition PositionEmbedding_init :: "pyval \<Rightarrow> pyval \<Rightarrow> pyval \<Rightarrow> error + built" where
  "PositionEmbedding_init max_ctx d_model init_std =
     (case torch_empty [max_ctx, d_model] of Inl e \<Rightarrow> Inl e
      | Inr sh \<Rightarrow> (case init_normal init_std of Inl e \<Rightarrow> Inl e
                   | Inr u \<Rightarrow> Inr (Built_PositionEmbedding sh)))"

definition UnembeddingLayer_init :: "pyval \<Rightarrow> pyval \<Rightarrow> pyval \<Rightarrow> error + built" where
  "UnembeddingLayer_init d_vocab d_model init_std =
     (case torch_empty [d_model, d_vocab] of Inl e \<Rightarrow> Inl e
      | Inr sh \<Rightarrow> (case init_normal init_std of Inl e \<Rightarrow> Inl e
                   | Inr u \<Rightarrow> (case torch_empty [d_vocab] of Inl e \<Rightarrow> Inl e
                                | Inr sb \<Rightarrow> Inr (Built_UnembeddingLayer sh))))"

definition LayerNorm_init :: "pyval \<Rightarrow> pyval \<Rightarrow> error + built" where
  "LayerNorm_init d_model init_std =
     (case torch_empty [d_model] of Inl e \<Rightarrow> Inl e
      | Inr sh \<Rightarrow> (case init_normal init_std of Inl e \<Rightarrow> Inl e
                   | Inr u \<Rightarrow> Inr (Built_LayerNorm sh)))"

definition SelfAttention_init :: "pyval \<Rightarrow> pyval \<Rightarrow> pyval \<Rightarrow> error + built" where
  "SelfAttention_init n_heads d_model d_head =
     (case torch_empty [n_heads, d_model, d_head] of Inl e \<Rightarrow> Inl e
      | Inr sh \<Rightarrow> (case torch_empty [n_heads, d_head, d_model] of Inl e \<Rightarrow> Inl e
                   | Inr so \<Rightarrow> Inr (Built_SelfAttention sh so)))"

text \<open>\<open>nn.Linear(d_model, d_mlp)\<close> and \<open>nn.Linear(d_mlp, d_model)\<close>\<close>

definition MLP_init :: "pyval \<Rightarrow> pyval \<Rightarrow> error + built" where
  "MLP_init d_mlp d_model =
     (case torch_empty [d_mlp, d_model] of Inl e \<Rightarrow> Inl e
      | Inr sh \<Rightarrow> Inr (Built_MLP sh))"

definition TransformerBlock_init :: "pyval \<Rightarrow> pyval \<Rightarrow> pyval \<Rightarrow> pyval \<Rightarrow> error + built" where
  "TransformerBlock_init d_model d_mlp d_head n_heads =
     (case LayerNorm_init d_model (PyFloat 0.02) of Inl e \<Rightarrow> Inl e
      | Inr l1 \<Rightarrow> (case SelfAttention_init n_heads d_model d_head of Inl e \<Rightarrow> Inl e
      | Inr a \<Rightarrow> (case LayerNorm_init d_model (PyFloat 0.02) of Inl e \<Rightarrow> Inl e
      | Inr l2 \<Rightarrow> (case MLP_init d_mlp d_model of Inl e \<Rightarrow> Inl e
      | Inr m \<Rightarrow> Inr (Built_TransformerBlock l1 a l2 m)))))"

text \<open>Evaluating the arguments of a call from left to right: the first missing attribute raises.\<close>

definition getattrs :: "config \<Rightarrow> string list \<Rightarrow> error + pyval list" where
  "getattrs c names = traverse (getattr c) names"

text \<open>
  The body of the comprehension, once per element of the iterable:
  \<open>TransformerBlock(config.d_model, config.d_mlp, config.d_head, config.n_heads)\<close>.
  The state is the list of modules built so far.
\<close>

fun build_blocks :: "config \<Rightarrow> pyval list \<Rightarrow> built list \<Rightarrow> built list \<times> error option" where
  "build_blocks c [] acc = (acc, None)"
| "build_blocks c (x # xs) acc =
     (case getattrs c [''d_model'', ''d_mlp'', ''d_head'', ''n_heads''] of
        Inl e \<Rightarrow> (acc, Some e)
      | Inr args \<Rightarrow>
          (case TransformerBlock_init (args ! 0) (args ! 1) (args ! 2) (args ! 3) of
             Inl e \<Rightarrow> (acc, Some e)
           | Inr b \<Rightarrow> build_blocks c xs (acc @ [b])))"

text \<open>
  \<open>Transformer.__init__\<close>. The result is the list of modules built, in order, and the
  exception that ended the construction, if any.
  \<^verbatim>\<open>self.embed = EmbeddingLayer(config.d_vocab, config.d_model, config.init_std)
self.pos_embed = PositionEmbedding(config.max_ctx, config.d_model, config.init_std)
self.transformer = nn.ModuleList([TransformerBlock(config.d_model, config.d_mlp,
                        config.d_head, config.n_heads) for _ in config.num_blocks])
self.ln = LayerNorm(config.d_model, config.init_std, config.layer_norm_eps)
self.unembed = UnembeddingLayer(config.d_vocab, config.d_model, config.init_std)\<close>
\<close>

definition Transformer_init :: "config \<Rightarrow> built list \<times> error option" where
  "Transformer_init c =
     (case getattrs c [''d_vocab'', ''d_model'', ''init_std''] of Inl e \<Rightarrow> ([], Some e)
      | Inr a1 \<Rightarrow>
     (case EmbeddingLayer_init (a1 ! 0) (a1 ! 1) (a1 ! 2) of Inl e \<Rightarrow> ([], Some e)
      | Inr em \<Rightarrow>
     (case getattrs c [''max_ctx'', ''d_model'', ''init_std''] of Inl e \<Rightarrow> ([em], Some e)
      | Inr a2 \<Rightarrow>
     (case PositionEmbedding_init (a2 ! 0) (a2 ! 1) (a2 ! 2) of Inl e \<Rightarrow> ([em], Some e)
      | Inr pe \<Rightarrow>
     (case getattr c ''num_blocks'' of Inl e \<Rightarrow> ([em, pe], Some e)
      | Inr nb \<Rightarrow>
     (case py_iter nb of Inl e \<Rightarrow> ([em, pe], Some e)
      | Inr items \<Rightarrow>
     (case build_blocks c items [em, pe] of
        (acc, Some e) \<Rightarrow> (acc, Some e)
      | (acc, None) \<Rightarrow>
     (case getattrs c [''d_model'', ''init_std'', ''layer_norm_eps''] of Inl e \<Rightarrow> (acc, Some e)
      | Inr a3 \<Rightarrow>
     (case LayerNorm_init (a3 ! 0) (a3 ! 1) of Inl e \<Rightarrow> (acc, Some e)
      | Inr lf \<Rightarrow>
     (case getattrs c [''d_vocab'', ''d_model'', ''init_std''] of Inl e \<Rightarrow> (acc @ [lf], Some e)
      | Inr a4 \<Rightarrow>
     (case UnembeddingLayer_init (a4 ! 0) (a4 ! 1) (a4 ! 2) of Inl e \<Rightarrow> (acc @ [lf], Some e)
      | Inr un \<Rightarrow> (acc @ [lf, un], None))))))))))))"

fun is_block :: "built \<Rightarrow> bool" where
  "is_block (Built_TransformerBlock l1 a l2 m) = True"
| "is_block b = False"

subsection \<open>A small model\<close>

text \<open>
  A transformer with \<open>d_model = 2\<close>, \<open>d_mlp = 1\<close>, \<open>d_head = 1\<close>, \<open>n_heads = 1\<close>,
  \<open>d_vocab = 2\<close>, \<open>max_ctx = 2\<close> and one block, with the shapes the constructors give.
  The query bias makes every score \<open>-200000\<close>, below the mask value.
\<close>

definition example_ln :: LayerNorm where
  "example_ln = \<lparr>gains = [1, 1], bias = [0, 0], layer_norm_eps = 1 / 100000\<rparr>"

definition example_attn :: SelfAttention where
  "example_attn =
     \<lparr>W_Q = [[[0], [0]]], b_Q = [[- 200000]], W_K = [[[0], [0]]], b_K = [[1]],
      W_V = [[[1], [0]]], b_V = [[0]], W_O = [[[1, - 1]]], b_O = [0, 0],
      mask_val = - 100000\<rparr>"

definition example_mlp :: MLP where
  "example_mlp =
     \<lparr>input_layer = \<lparr>weight = [[0, 0]], linear_bias = [0]\<rparr>,
      output_layer = \<lparr>weight = [[0], [0]], linear_bias = [0, 0]\<rparr>\<rparr>"

definition example_block :: TransformerBlock where
  "example_block = \<lparr>ln1 = example_ln, attn = example_attn, ln2 = example_ln, mlp = example_mlp\<rparr>"

definition example_model :: Transformer where
  "example_model =
     \<lparr>embed = \<lparr>W_E = [[0, 0], [1, - 1]]\<rparr>, pos_embed = \<lparr>W_P = [[0, 0], [0, 0]]\<rparr>,
      transformer = [example_block], ln_final = example_ln,
      unembed = \<lparr>W_U = [[1, 0], [0, 1]], b_U = [0, 0]\<rparr>\<rparr>"





section \<open>Properties\<close>

subsection \<open>Shared lemmas\<close>

lemma traverse_Inr:
  "(\<And>x. x \<in> set xs \<Longrightarrow> f x = Inr (g x)) \<Longrightarrow> traverse f xs = Inr (map g xs)"
  by (induction xs) auto

lemma traverse_Inl:
  assumes "x \<in> set xs" and "f x = Inl e" and all: "\<And>y e'. f y = Inl e' \<Longrightarrow> e' = e"
  shows "traverse f xs = Inl e"
  using assms(1)
proof (induction xs)
  case Nil
  then show ?case by simp
next
  case (Cons a xs)
  show ?case
  proof (cases "f a")
    case (Inl e')
    then show ?thesis using all[OF Inl] by simp
  next
    case (Inr y)
    then have "a \<noteq> x" using assms(2) by auto
    then have "traverse f xs = Inl e" using Cons by simp
    then show ?thesis using Inr by simp
  qed
qed

lemma index_row_cases:
  "index_row W t =
     (if - int (length W) \<le> t \<and> t < int (length W)
      then Inr (W ! nat (if t < 0 then t + int (length W) else t)) else Inl IndexError)"
  by (simp add: index_row_def Let_def)

lemma traverse_index_row_Inl:
  "traverse (index_row W) y = Inl e' \<Longrightarrow> e' = IndexError"
  by (induction y arbitrary: e') (auto simp: index_row_cases split: sum.splits if_splits)

lemma EmbeddingLayer_forward_Inr:
  assumes "list_all (list_all (\<lambda>t. - int (length (W_E self)) \<le> t \<and> t < int (length (W_E self)))) tokens"
  shows "EmbeddingLayer_forward self tokens =
           Inr (map (map (\<lambda>t. W_E self ! nat (if t < 0 then t + int (length (W_E self)) else t))) tokens)"
  unfolding EmbeddingLayer_forward_def
proof (rule traverse_Inr)
  fix r assume r: "r \<in> set tokens"
  show "traverse (index_row (W_E self)) r =
          Inr (map (\<lambda>t. W_E self ! nat (if t < 0 then t + int (length (W_E self)) else t)) r)"
  proof (rule traverse_Inr)
    fix t assume "t \<in> set r"
    with r assms have "- int (length (W_E self)) \<le> t \<and> t < int (length (W_E self))"
      by (simp add: list_all_iff)
    then show "index_row (W_E self) t = Inr (W_E self ! nat (if t < 0 then t + int (length (W_E self)) else t))"
      by (simp add: index_row_cases)
  qed
qed

lemma EmbeddingLayer_forward_Inl:
  assumes "\<not> list_all (list_all (\<lambda>t. - int (length (W_E self)) \<le> t \<and> t < int (length (W_E self)))) tokens"
  shows "EmbeddingLayer_forward self tokens = Inl IndexError"
proof -
  from assms obtain r t where r: "r \<in> set tokens" and t: "t \<in> set r"
    and bad: "\<not> (- int (length (W_E self)) \<le> t \<and> t < int (length (W_E self)))"
    by (auto simp: list_all_iff)
  have "index_row (W_E self) t = Inl IndexError"
    using bad by (simp add: index_row_cases)
  then have inner: "traverse (index_row (W_E self)) r = Inl IndexError"
  proof (rule traverse_Inl[where f = "index_row (W_E self)", OF t])
    fix y e' assume "index_row (W_E self) y = Inl e'"
    then show "e' = IndexError" by (simp add: index_row_cases split: if_splits)
  qed
  show ?thesis
    unfolding EmbeddingLayer_forward_def
  proof (rule traverse_Inl[where f = "traverse (index_row (W_E self))", OF r inner])
    fix y e'
    assume "traverse (index_row (W_E self)) y = Inl e'"
    then show "e' = IndexError" by (rule traverse_index_row_Inl)
  qed
qed

lemma EmbeddingLayer_init_not_block: "EmbeddingLayer_init a b c = Inr em \<Longrightarrow> \<not> is_block em"
  by (auto simp: EmbeddingLayer_init_def split: sum.splits)

lemma PositionEmbedding_init_not_block: "PositionEmbedding_init a b c = Inr pe \<Longrightarrow> \<not> is_block pe"
  by (auto simp: PositionEmbedding_init_def split: sum.splits)

lemma Config_attrs:
  "Config ''d_vocab'' = Some (PyInt 50257)" "Config ''d_model'' = Some (PyInt 256)"
  "Config ''init_std'' = Some (PyFloat 0.02)" "Config ''max_ctx'' = Some (PyInt 512)"
  "Config ''num_blocks'' = None"
  by (simp_all add: Config_def)

lemma shape2_iff: "shape2 t p d \<longleftrightarrow> length t = p \<and> (\<forall>r \<in> set t. length r = d)"
  by (simp add: shape2_def list_all_iff)

lemma shape3_iff:
  "shape3 t b p d \<longleftrightarrow> length t = b \<and> (\<forall>m \<in> set t. length m = p \<and> (\<forall>r \<in> set m. length r = d))"
  by (simp add: shape3_def shape2_iff list_all_iff)

lemma shape3_shape_1: "shape3 t b p d \<Longrightarrow> 0 < b \<Longrightarrow> shape_1 t = p"
  by (cases t) (auto simp: shape3_iff shape_1_def)

lemma shape2_shape_1: "shape2 t p d \<Longrightarrow> 0 < p \<Longrightarrow> shape_1 t = d"
  by (cases t) (auto simp: shape2_iff shape_1_def)

lemma shape3_shape_last3: "shape3 t b p d \<Longrightarrow> 0 < b \<Longrightarrow> 0 < p \<Longrightarrow> shape_last3 t = d"
  by (cases t) (auto simp: shape3_def shape_last3_def shape2_shape_1)

lemma length_add1: "length (add1 xs ys) = min (length xs) (length ys)"
  by (simp add: add1_def)

lemma length_LayerNorm_row:
  "wf_LayerNorm d self \<Longrightarrow> length x = d \<Longrightarrow> length (LayerNorm_row self x) = d"
  by (simp add: LayerNorm_row_def wf_LayerNorm_def add1_def Let_def)

lemma in_set_zipD: "(a, b) \<in> set (zip x y) \<Longrightarrow> a \<in> set x \<and> b \<in> set y"
  by (meson set_zip_leftD set_zip_rightD)

lemma shape2_add2: "shape2 x p d \<Longrightarrow> shape2 y p d \<Longrightarrow> shape2 (add2 x y) p d"
  by (auto simp: shape2_iff add2_def length_add1 dest!: in_set_zipD)

lemma shape3_add3: "shape3 x b p d \<Longrightarrow> shape3 y b p d \<Longrightarrow> shape3 (add3 x y) b p d"
  unfolding shape3_def add3_def
  by (auto simp: list_all_iff shape2_add2 dest!: in_set_zipD)

lemma shape3_LayerNorm_forward:
  "wf_LayerNorm d self \<Longrightarrow> shape3 x b p d \<Longrightarrow> shape3 (LayerNorm_forward self x) b p d"
  by (auto simp: shape3_iff LayerNorm_forward_def length_LayerNorm_row)

lemma shape3_Linear_forward:
  "wf_Linear n_in n_out self \<Longrightarrow> shape3 x b p d \<Longrightarrow> shape3 (Linear_forward self x) b p n_out"
  by (auto simp: shape3_iff Linear_forward_def wf_Linear_def shape2_iff)

lemma shape3_map_elementwise: "shape3 x b p d \<Longrightarrow> shape3 (map (map (map f)) x) b p d"
  by (auto simp: shape3_iff)

lemma shape3_MLP_forward:
  "wf_MLP d_mlp d_model self \<Longrightarrow> shape3 x b p d \<Longrightarrow> shape3 (MLP_forward self x) b p d_model"
  unfolding MLP_forward_def Let_def wf_MLP_def
  by (blast intro: shape3_Linear_forward shape3_map_elementwise)


lemma length_project_heads: "length (project_heads W b x) = length x"
  by (simp add: project_heads_def)

lemma length_attn_pattern: "length (attn_pattern self x) = length x"
  by (simp add: attn_pattern_def Let_def softmax_last_def masked_fill_def scale_scores_def
        attn_scores_def length_project_heads)

lemma length_context_vec: "length (context_vec e pattern vals) = min (length pattern) (length vals)"
  by (simp add: context_vec_def)

lemma shape3_SelfAttention_forward:
  assumes wf: "wf_SelfAttention n_heads d_model d_head self" and x: "shape3 x b p d_model"
  shows "shape3 (SelfAttention_forward self x) b p d_model"
proof -
  have last: "shape_last3 (W_O self) = d_model"
    using wf by (intro shape3_shape_last3[where b = n_heads and p = d_head])
      (simp_all add: wf_SelfAttention_def)
  have bO: "length (b_O self) = d_model"
    using wf by (simp add: wf_SelfAttention_def)
  have len: "length (SelfAttention_forward self x) = b"
    using x by (simp add: SelfAttention_forward_def Let_def output_heads_def length_context_vec
        length_attn_pattern length_project_heads shape3_iff)
  show ?thesis
  proof (cases "b = 0")
    case True
    then show ?thesis using len by (simp add: shape3_iff)
  next
    case False
    then have p: "shape_1 x = p" using x by (simp add: shape3_shape_1)
    show ?thesis
      using len by (auto simp: shape3_iff SelfAttention_forward_def Let_def output_heads_def p
          length_add1 last bO)
  qed
qed

lemma shape3_TransformerBlock_forward:
  assumes wf: "wf_TransformerBlock d_model d_mlp d_head n_heads self" and x: "shape3 x b p d_model"
  shows "shape3 (TransformerBlock_forward self x) b p d_model"
proof -
  have l1: "shape3 (LayerNorm_forward (ln1 self) x) b p d_model"
    using wf x by (simp add: wf_TransformerBlock_def shape3_LayerNorm_forward)
  have a: "shape3 (SelfAttention_forward (attn self) (LayerNorm_forward (ln1 self) x)) b p d_model"
    using wf l1 by (auto simp: wf_TransformerBlock_def intro: shape3_SelfAttention_forward)
  have mid: "shape3 (add3 x (SelfAttention_forward (attn self) (LayerNorm_forward (ln1 self) x))) b p d_model"
    using x a by (rule shape3_add3)
  have l2: "shape3 (LayerNorm_forward (ln2 self)
      (add3 x (SelfAttention_forward (attn self) (LayerNorm_forward (ln1 self) x)))) b p d_model"
    using wf mid by (simp add: wf_TransformerBlock_def shape3_LayerNorm_forward)
  have m: "shape3 (MLP_forward (mlp self) (LayerNorm_forward (ln2 self)
      (add3 x (SelfAttention_forward (attn self) (LayerNorm_forward (ln1 self) x))))) b p d_model"
    using wf l2 by (auto simp: wf_TransformerBlock_def intro: shape3_MLP_forward)
  show ?thesis
    unfolding TransformerBlock_forward_def Let_def
    using mid m by (rule shape3_add3)
qed





lemma wf_example_block: "wf_TransformerBlock 2 1 1 1 example_block"
  by (simp add: wf_TransformerBlock_def example_block_def example_ln_def example_attn_def
      example_mlp_def wf_LayerNorm_def wf_SelfAttention_def wf_MLP_def wf_Linear_def
      shape3_def shape2_def mask_val_default_def)

lemma wf_example_model: "wf_Transformer 2 2 2 1 1 1 example_model"
  using wf_example_block
  by (simp add: wf_Transformer_def example_model_def example_ln_def wf_LayerNorm_def shape2_def)

lemma run_blocks_foldl:
  "run_blocks blocks i resid
     = foldl (\<lambda>r blk. TransformerBlock_forward blk r) resid (drop i blocks)"
proof (induction blocks i resid rule: run_blocks.induct)
  case (1 blocks i resid)
  show ?case
  proof (cases "i < length blocks")
    case True
    then have "drop i blocks = blocks ! i # drop (Suc i) blocks"
      by (simp add: Cons_nth_drop_Suc)
    then show ?thesis
      using True "1.IH" by (subst run_blocks.simps) simp
  next
    case False
    then show ?thesis by (subst run_blocks.simps) simp
  qed
qed

lemma shape3_foldl_blocks:
  "list_all (wf_TransformerBlock d_model d_mlp d_head n_heads) blocks \<Longrightarrow> shape3 x b p d_model \<Longrightarrow>
   shape3 (foldl (\<lambda>r blk. TransformerBlock_forward blk r) x blocks) b p d_model"
  by (induction blocks arbitrary: x) (auto intro: shape3_TransformerBlock_forward)

lemma add_embeddings_Inr:
  assumes "shape3 e b p d" and "shape3 pe b p d"
  shows "add_embeddings e pe = Inr (add3 e pe)"
proof -
  have "traverse (\<lambda>(x, y). add_broadcast_pos x y) (zip e pe) = Inr (map (\<lambda>(x, y). add2 x y) (zip e pe))"
  proof (rule traverse_Inr)
    fix xy assume mem0: "xy \<in> set (zip e pe)"
    obtain x y where xy: "xy = (x, y)"
      by (cases xy)
    have mem: "(x, y) \<in> set (zip e pe)"
      using mem0 by (simp add: xy)
    have "x \<in> set e" "y \<in> set pe"
      using in_set_zipD[OF mem] by simp_all
    then have "length x = length y"
      using assms by (auto simp: shape3_iff)
    then show "(case xy of (x, y) \<Rightarrow> add_broadcast_pos x y) = Inr (case xy of (x, y) \<Rightarrow> add2 x y)"
      by (simp add: xy add_broadcast_pos_def)
  qed
  then show ?thesis by (simp add: add_embeddings_def add3_def)
qed

lemma PositionEmbedding_forward_shape:
  assumes "shape2 (W_P self) max_ctx d_model" and "shape2 tokens batch position"
    and "1 \<le> batch" and "position \<le> max_ctx"
  shows "PositionEmbedding_forward self tokens = replicate batch (take position (W_P self))"
    and "shape3 (PositionEmbedding_forward self tokens) batch position d_model"
  using assms
  by (cases tokens; auto simp: PositionEmbedding_forward_def shape_1_def shape2_iff shape3_iff
        dest: in_set_takeD)+

lemma shape3_UnembeddingLayer_forward:
  assumes "shape2 (W_U self) d_model d_vocab" and "length (b_U self) = d_vocab" and "0 < d_model"
    and "shape3 x b p d"
  shows "shape3 (UnembeddingLayer_forward self x) b p d_vocab"
proof -
  have "shape_1 (W_U self) = d_vocab"
    using assms(1,3) by (rule shape2_shape_1)
  then show ?thesis
    using assms(2,4) by (auto simp: shape3_iff UnembeddingLayer_forward_def length_add1 vecmat_def)
qed


lemma EmbeddingLayer_forward_valid:
  assumes "shape2 (W_E self) d_vocab d_model" and "valid_tokens d_vocab batch position tokens"
  shows "EmbeddingLayer_forward self tokens = Inr (map (map (\<lambda>t. W_E self ! nat t)) tokens)"
    and "shape3 (map (map (\<lambda>t. W_E self ! nat t)) tokens) batch position d_model"
proof -
  have len: "length (W_E self) = d_vocab"
    using assms(1) by (simp add: shape2_iff)
  have rng: "0 \<le> t \<and> t < int d_vocab" if "r \<in> set tokens" "t \<in> set r" for r t
    using assms(2) that by (auto simp: valid_tokens_def list_all_iff)
  have "list_all (list_all (\<lambda>t. - int (length (W_E self)) \<le> t \<and> t < int (length (W_E self)))) tokens"
    using rng by (fastforce simp: list_all_iff len)
  then have "EmbeddingLayer_forward self tokens =
      Inr (map (map (\<lambda>t. W_E self ! nat (if t < 0 then t + int (length (W_E self)) else t))) tokens)"
    by (rule EmbeddingLayer_forward_Inr)
  moreover have "map (map (\<lambda>t. W_E self ! nat (if t < 0 then t + int (length (W_E self)) else t))) tokens
      = map (map (\<lambda>t. W_E self ! nat t)) tokens"
  proof (intro map_cong refl)
    fix r t assume "r \<in> set tokens" "t \<in> set r"
    then have "0 \<le> t" using rng by blast
    then show "W_E self ! nat (if t < 0 then t + int (length (W_E self)) else t) = W_E self ! nat t"
      by simp
  qed
  ultimately show "EmbeddingLayer_forward self tokens = Inr (map (map (\<lambda>t. W_E self ! nat t)) tokens)"
    by simp
  have "length (W_E self ! nat t) = d_model" if "r \<in> set tokens" "t \<in> set r" for r t
  proof -
    have "nat t < length (W_E self)" using rng[OF that] len by auto
    then show ?thesis using assms(1) by (auto simp: shape2_iff)
  qed
  then show "shape3 (map (map (\<lambda>t. W_E self ! nat t)) tokens) batch position d_model"
    using assms(2) by (auto simp: shape3_iff valid_tokens_def shape2_iff)
qed

subsection \<open>What the source computes where it departs from the expected behaviour\<close>

text \<open>
  \<open>LayerNorm.forward\<close> on one row, in closed form: the centred row has mean zero, so the
  variance is the sum of squared deviations over the number of channels minus one.
\<close>

lemma sum_list_centered: "sum_list (map (\<lambda>v. v - c) xs) = sum_list xs - real (length xs) * (c :: real)"
  by (induction xs) (simp_all add: algebra_simps)

lemma mean_centered: "xs \<noteq> [] \<Longrightarrow> mean (map (\<lambda>v. v - mean xs) xs) = 0"
  by (simp add: mean_def sum_list_centered)

lemma LayerNorm_row_formula:
  assumes "x \<noteq> []"
  shows "LayerNorm_row self x =
           add1 (map2 (*)
                   (map (\<lambda>v. (v - mean x)
                              / sqrt (sum_list (map (\<lambda>u. (u - mean x)\<^sup>2) x) / (real (length x) - 1)
                                      + layer_norm_eps self)) x)
                   (gains self))
                (bias self)"
proof -
  have "var (map (\<lambda>v. v - mean x) x) = sum_list (map (\<lambda>u. (u - mean x)\<^sup>2) x) / (real (length x) - 1)"
    using assms by (simp add: var_def mean_centered comp_def)
  then show ?thesis
    by (simp add: LayerNorm_row_def Let_def comp_def)
qed


text \<open>
  With more positions than \<open>max_ctx\<close> (and \<open>max_ctx \<ge> 2\<close>), \<open>Transformer.forward\<close> raises
  at \<open>embedded + pos_embed\<close>: the positional embedding was cut to \<open>max_ctx\<close> rows and the
  two shapes do not broadcast.
\<close>

lemma add_embeddings_mismatch:
  assumes "shape3 e b p d" and "shape3 pe b c d" and "1 \<le> b" and "c < p" and "2 \<le> c"
  shows "add_embeddings e pe = Inl RuntimeError"
proof -
  obtain x e' where e: "e = x # e'" using assms(1,3) by (cases e) (auto simp: shape3_iff)
  obtain y pe' where pe: "pe = y # pe'" using assms(2,3) by (cases pe) (auto simp: shape3_iff)
  have "length x = p" "length y = c"
    using assms(1,2) by (auto simp: shape3_iff e pe)
  then have "add_broadcast_pos x y = Inl RuntimeError"
    using assms(4,5) by (simp add: add_broadcast_pos_def)
  then show ?thesis
    by (simp add: add_embeddings_def e pe)
qed

lemma Transformer_forward_too_long:
  assumes wf: "wf_Transformer d_vocab d_model max_ctx d_mlp d_head n_heads self"
    and tok: "valid_tokens d_vocab batch position tokens"
    and "1 \<le> batch" and "max_ctx < position" and "2 \<le> max_ctx"
  shows "Transformer_forward self tokens = Inl RuntimeError"
proof -
  have WE: "shape2 (W_E (embed self)) d_vocab d_model"
    and WP: "shape2 (W_P (pos_embed self)) max_ctx d_model"
    using wf by (simp_all add: wf_Transformer_def)
  have toks: "shape2 tokens batch position"
    using tok by (simp add: valid_tokens_def)
  note e = EmbeddingLayer_forward_valid[OF WE tok]
  have pes: "shape3 (PositionEmbedding_forward (pos_embed self) tokens) batch max_ctx d_model"
    using WP toks assms(3,4)
    by (cases tokens)
       (auto simp: PositionEmbedding_forward_def shape_1_def shape2_def shape3_def list_all_iff)
  have "add_embeddings (map (map (\<lambda>t. W_E (embed self) ! nat t)) tokens)
          (PositionEmbedding_forward (pos_embed self) tokens) = Inl RuntimeError"
    using e(2) pes assms(3,4,5) by (rule add_embeddings_mismatch)
  then show ?thesis
    by (simp add: Transformer_forward_def e(1) Let_def)
qed

subsection \<open>C1: Transformer.forward\<close>

text \<open>
  C1: for a token tensor of shape \<open>[batch, position]\<close> with \<open>batch \<ge> 1\<close>,
  \<open>1 \<le> position \<le> max_ctx\<close> and every id in \<open>[0, d_vocab)\<close>, \<open>Transformer.forward\<close>
  raises nothing and returns the unembedding of the final layer norm of the blocks, applied
  in order, to the sum of the embedded tokens and the first \<open>position\<close> rows of the positional
  table; the result has shape \<open>[batch, position, d_vocab]\<close>.
\<close>

theorem Transformer_forward_composition:
  assumes wf: "wf_Transformer d_vocab d_model max_ctx d_mlp d_head n_heads self"
    and tok: "valid_tokens d_vocab batch position tokens"
    and "1 \<le> batch" and "1 \<le> position" and "position \<le> max_ctx"
  shows "Transformer_forward self tokens =
           Inr (UnembeddingLayer_forward (unembed self)
                 (LayerNorm_forward (ln_final self)
                   (foldl (\<lambda>resid blk. TransformerBlock_forward blk resid)
                      (add3 (map (map (\<lambda>t. W_E (embed self) ! nat t)) tokens)
                            (replicate batch (take position (W_P (pos_embed self)))))
                      (transformer self)))) \<and>
         shape3 (UnembeddingLayer_forward (unembed self)
                 (LayerNorm_forward (ln_final self)
                   (foldl (\<lambda>resid blk. TransformerBlock_forward blk resid)
                      (add3 (map (map (\<lambda>t. W_E (embed self) ! nat t)) tokens)
                            (replicate batch (take position (W_P (pos_embed self)))))
                      (transformer self))))
           batch position d_vocab"
proof -
  let ?e = "map (map (\<lambda>t. W_E (embed self) ! nat t)) tokens"
  let ?pe = "replicate batch (take position (W_P (pos_embed self)))"
  let ?r = "foldl (\<lambda>resid blk. TransformerBlock_forward blk resid) (add3 ?e ?pe) (transformer self)"
  have WE: "shape2 (W_E (embed self)) d_vocab d_model"
    and WP: "shape2 (W_P (pos_embed self)) max_ctx d_model"
    and blocks: "list_all (wf_TransformerBlock d_model d_mlp d_head n_heads) (transformer self)"
    and lnf: "wf_LayerNorm d_model (ln_final self)"
    and WU: "shape2 (W_U (unembed self)) d_model d_vocab"
    and bU: "length (b_U (unembed self)) = d_vocab"
    using wf by (simp_all add: wf_Transformer_def)
  have toks: "shape2 tokens batch position"
    using tok by (simp add: valid_tokens_def)
  have e: "EmbeddingLayer_forward (embed self) tokens = Inr ?e"
    and es: "shape3 ?e batch position d_model"
    using EmbeddingLayer_forward_valid[OF WE tok] by simp_all
  have pe: "PositionEmbedding_forward (pos_embed self) tokens = ?pe"
    and pes: "shape3 (PositionEmbedding_forward (pos_embed self) tokens) batch position d_model"
    using PositionEmbedding_forward_shape[OF WP toks assms(3) assms(5)] by simp_all
  have add: "add_embeddings ?e ?pe = Inr (add3 ?e ?pe)"
    using es pes unfolding pe by (rule add_embeddings_Inr)
  have r0: "shape3 (add3 ?e ?pe) batch position d_model"
    using es pes unfolding pe by (rule shape3_add3)
  have r: "shape3 ?r batch position d_model"
    using blocks r0 by (rule shape3_foldl_blocks)
  have n: "shape3 (LayerNorm_forward (ln_final self) ?r) batch position d_model"
    using lnf r by (rule shape3_LayerNorm_forward)
  have "0 < d_model"
    using lnf by (simp add: wf_LayerNorm_def)
  with WU bU have out: "shape3 (UnembeddingLayer_forward (unembed self)
      (LayerNorm_forward (ln_final self) ?r)) batch position d_vocab"
    using n by (rule shape3_UnembeddingLayer_forward)
  have "Transformer_forward self tokens =
      Inr (UnembeddingLayer_forward (unembed self) (LayerNorm_forward (ln_final self) ?r))"
    by (simp add: Transformer_forward_def e pe add Let_def run_blocks_foldl)
  with out show ?thesis by blast
qed

text \<open>C1, witness: the small model on the tokens \<open>[[0, 1]]\<close>.\<close>

theorem Transformer_forward_composition_witness:
  "wf_Transformer 2 2 2 1 1 1 example_model \<and> valid_tokens 2 1 2 [[0, 1]] \<and>
   (1::nat) \<le> 1 \<and> (1::nat) \<le> 2 \<and> (2::nat) \<le> 2 \<and>
   shape3 (UnembeddingLayer_forward (unembed example_model)
            (LayerNorm_forward (ln_final example_model)
              (foldl (\<lambda>resid blk. TransformerBlock_forward blk resid)
                 (add3 (map (map (\<lambda>t. W_E (embed example_model) ! nat t)) [[0, 1]])
                       (replicate 1 (take 2 (W_P (pos_embed example_model)))))
                 (transformer example_model))))
     1 2 2"
proof -
  have h2: "valid_tokens 2 1 2 [[0, 1]]"
    by (simp add: valid_tokens_def shape2_def)
  have h3: "(1::nat) \<le> 1" and h4: "(1::nat) \<le> 2" and h5: "(2::nat) \<le> 2"
    by simp_all
  note c = Transformer_forward_composition [OF wf_example_model h2 h3 h4 h5]
  show ?thesis
    by (intro conjI wf_example_model h2 h3 h4 h5 conjunct2[OF c])
qed

subsection \<open>C2: TransformerBlock.forward\<close>



subsection \<open>Lemmas on the attention pattern and on the small model\<close>

lemma project_heads_nth:
  "b < length x \<Longrightarrow> project_heads W bs x ! b = map (\<lambda>v. map2 (\<lambda>Wh bh. add1 (vecmat v Wh) bh) W bs) (x ! b)"
  by (simp add: project_heads_def)

lemma attn_pattern_row:
  assumes wf: "wf_SelfAttention n_heads d_model d_head self" and x: "shape3 x batch position d_model"
    and b: "b < batch" and h: "h < n_heads" and q: "q < position"
  shows "attn_pattern self x ! b ! h ! q =
           softmax (map (\<lambda>k. if q < k then mask_val self
                               else dot (project_heads (W_Q self) (b_Q self) x ! b ! q ! h)
                                        (project_heads (W_K self) (b_K self) x ! b ! k ! h)
                                    / sqrt (real d_head))
                      [0..<position])"
proof -
  let ?Q = "project_heads (W_Q self) (b_Q self) x"
  let ?K = "project_heads (W_K self) (b_K self) x"
  let ?c = "sqrt (real (shape_last3 (W_Q self)))"
  have lx: "length x = batch" and lxb: "length (x ! b) = position"
    using x b by (auto simp: shape3_iff)
  have lQ: "length ?Q = batch" and lK: "length ?K = batch"
    by (simp_all add: length_project_heads lx)
  have lQb: "length (?Q ! b) = position" and lKb: "length (?K ! b) = position"
    using b by (simp_all add: project_heads_nth lx lxb)
  have nh: "length (W_Q self) = n_heads"
    using wf by (simp add: wf_SelfAttention_def shape3_iff)
  have dh: "shape_last3 (W_Q self) = d_head"
    using wf by (intro shape3_shape_last3[where b = n_heads and p = d_model])
      (simp_all add: wf_SelfAttention_def)
  have p1: "shape_1 x = position"
    using x b by (intro shape3_shape_1[where b = batch and d = d_model]) simp_all
  have raw: "attn_scores n_heads ?Q ?K ! b ! h ! q = map (\<lambda>k. dot (?Q ! b ! q ! h) (k ! h)) (?K ! b)"
    using b h q by (simp add: attn_scores_def lQ lK lQb)
  have lraw: "length (attn_scores n_heads ?Q ?K) = batch"
    "length (attn_scores n_heads ?Q ?K ! b) = n_heads"
    "length (attn_scores n_heads ?Q ?K ! b ! h) = position"
    using b h q by (simp_all add: attn_scores_def lQ lK lQb)
  have msk: "triu_mask position position ! q = map (\<lambda>j. q + 1 \<le> j) [0..<position]"
    using q by (simp add: triu_mask_def)
  have filled: "masked_fill (triu_mask position position) (mask_val self)
                  (scale_scores ?c (attn_scores n_heads ?Q ?K)) ! b ! h ! q
              = map2 (\<lambda>s m. if m then mask_val self else s)
                  (map (\<lambda>s. s / ?c) (attn_scores n_heads ?Q ?K ! b ! h ! q))
                  (triu_mask position position ! q)"
    using b h q lraw by (simp add: masked_fill_def scale_scores_def triu_mask_def)
  have row: "map2 (\<lambda>s m. if m then mask_val self else s)
                  (map (\<lambda>s. s / ?c) (map (\<lambda>k. dot (?Q ! b ! q ! h) (k ! h)) (?K ! b)))
                  (map (\<lambda>j. q + 1 \<le> j) [0..<position])
           = map (\<lambda>k. if q < k then mask_val self
                        else dot (?Q ! b ! q ! h) (?K ! b ! k ! h) / sqrt (real d_head)) [0..<position]"
    by (rule nth_equalityI) (auto simp: lKb dh)
  have "attn_pattern self x ! b ! h ! q
      = softmax (masked_fill (triu_mask position position) (mask_val self)
                  (scale_scores ?c (attn_scores n_heads ?Q ?K)) ! b ! h ! q)"
    using b h q lraw
    by (simp add: attn_pattern_def Let_def softmax_last_def p1 nh masked_fill_def scale_scores_def
        triu_mask_def)
  then show ?thesis
    by (simp only: filled raw msk row)
qed


lemma sum_list_exp_nonneg: "0 \<le> sum_list (map exp (xs :: real list))"
  by (induction xs) (auto intro: add_nonneg_nonneg)

lemma sum_list_exp_pos: "xs \<noteq> [] \<Longrightarrow> 0 < sum_list (map exp (xs :: real list))"
  using sum_list_exp_nonneg by (cases xs) (auto intro: add_pos_nonneg)

lemma exp_le_sum_list_exp: "j < length xs \<Longrightarrow> exp (xs ! j) \<le> sum_list (map exp (xs :: real list))"
proof (induction xs arbitrary: j)
  case Nil
  then show ?case by simp
next
  case (Cons a xs)
  show ?case
  proof (cases j)
    case 0
    then show ?thesis using sum_list_exp_nonneg[of xs] by simp
  next
    case (Suc i)
    then have "exp (xs ! i) \<le> sum_list (map exp xs)" using Cons by simp
    then show ?thesis using Suc by (simp add: add_increasing)
  qed
qed

lemma attn_pattern_lengths:
  assumes wf: "wf_SelfAttention n_heads d_model d_head self" and x: "shape3 x batch position d_model"
    and b: "b < batch" and h: "h < n_heads"
  shows "length (attn_pattern self x ! b) = n_heads"
    and "length (attn_pattern self x ! b ! h) = position"
proof -
  have lx: "length x = batch" and lxb: "length (x ! b) = position"
    using x b by (auto simp: shape3_iff)
  have nh: "length (W_Q self) = n_heads"
    using wf by (simp add: wf_SelfAttention_def shape3_iff)
  have lQb: "length (project_heads (W_Q self) (b_Q self) x ! b) = position"
    using b by (simp add: project_heads_nth lx lxb)
  show "length (attn_pattern self x ! b) = n_heads"
    using b by (simp add: attn_pattern_def Let_def softmax_last_def masked_fill_def scale_scores_def
        attn_scores_def length_project_heads lx nh)
  show "length (attn_pattern self x ! b ! h) = position"
    using b h x
    by (simp add: attn_pattern_def Let_def softmax_last_def masked_fill_def scale_scores_def
        attn_scores_def length_project_heads lx nh lQb triu_mask_def shape3_shape_1[where b = batch])
qed

lemma context_vec_nth:
  assumes "b < length pattern" and "b < length vals" and "h < length (pattern ! b)"
    and "q < length (pattern ! b ! h)" and "e < d"
  shows "context_vec d pattern vals ! b ! h ! q ! e
           = sum_list (map2 (\<lambda>a v. a * v ! h ! e) (pattern ! b ! h ! q) (vals ! b))"
  using assms by (simp add: context_vec_def nth_enumerate_eq)

lemma wf_example_attn: "wf_SelfAttention 1 2 1 example_attn"
  using wf_example_block by (simp add: wf_TransformerBlock_def example_block_def)


















subsection \<open>C3: the order of scaling, masking and softmax\<close>

text \<open>
  C3: in \<open>SelfAttention.forward\<close> with the default mask value, row \<open>q\<close> of the attention
  pattern of batch element \<open>b\<close> and head \<open>h\<close> is the softmax, over the key positions, of the
  scores in which the query-key dot product is first divided by \<open>sqrt d_head\<close> and every
  entry with \<open>key_pos > query_pos\<close> is then overwritten with \<open>-1e5\<close> (the mask value itself
  is not divided); the context vector is the sum of the values weighted by these
  probabilities, and the output is the head projection of the context vectors.
\<close>

theorem SelfAttention_scale_mask_softmax:
  assumes wf: "wf_SelfAttention n_heads d_model d_head self" and x: "shape3 x batch position d_model"
    and mv: "mask_val self = mask_val_default"
    and b: "b < batch" and h: "h < n_heads" and q: "q < position"
  shows "attn_pattern self x ! b ! h ! q =
           softmax (map (\<lambda>k. if q < k then - 100000
                               else dot (project_heads (W_Q self) (b_Q self) x ! b ! q ! h)
                                        (project_heads (W_K self) (b_K self) x ! b ! k ! h)
                                    / sqrt (real d_head))
                      [0..<position]) \<and>
         (\<forall>e<d_head.
            context_vec (shape_last3 (W_V self)) (attn_pattern self x)
                (project_heads (W_V self) (b_V self) x) ! b ! h ! q ! e
              = sum_list (map2 (\<lambda>a v. a * v ! h ! e) (attn_pattern self x ! b ! h ! q)
                            (project_heads (W_V self) (b_V self) x ! b))) \<and>
         SelfAttention_forward self x =
           output_heads (shape_1 x) (W_O self) (b_O self)
             (context_vec (shape_last3 (W_V self)) (attn_pattern self x)
                (project_heads (W_V self) (b_V self) x))"
proof (intro conjI allI impI)
  show "attn_pattern self x ! b ! h ! q =
           softmax (map (\<lambda>k. if q < k then - 100000
                               else dot (project_heads (W_Q self) (b_Q self) x ! b ! q ! h)
                                        (project_heads (W_K self) (b_K self) x ! b ! k ! h)
                                    / sqrt (real d_head))
                      [0..<position])"
    using attn_pattern_row[OF wf x b h q] unfolding mv mask_val_default_def .
next
  fix e assume e: "e < d_head"
  have lx: "length x = batch"
    using x by (simp add: shape3_iff)
  have dv: "shape_last3 (W_V self) = d_head"
    using wf by (intro shape3_shape_last3[where b = n_heads and p = d_model])
      (simp_all add: wf_SelfAttention_def)
  show "context_vec (shape_last3 (W_V self)) (attn_pattern self x)
                (project_heads (W_V self) (b_V self) x) ! b ! h ! q ! e
              = sum_list (map2 (\<lambda>a v. a * v ! h ! e) (attn_pattern self x ! b ! h ! q)
                            (project_heads (W_V self) (b_V self) x ! b))"
    using b h q e attn_pattern_lengths[OF wf x b h]
    by (intro context_vec_nth) (simp_all add: length_attn_pattern length_project_heads lx dv)
next
  show "SelfAttention_forward self x =
           output_heads (shape_1 x) (W_O self) (b_O self)
             (context_vec (shape_last3 (W_V self)) (attn_pattern self x)
                (project_heads (W_V self) (b_V self) x))"
    by (simp add: SelfAttention_forward_def Let_def)
qed

text \<open>C3, witness: the attention of the small model, first query position.\<close>

theorem SelfAttention_scale_mask_softmax_witness:
  "wf_SelfAttention 1 2 1 example_attn \<and> shape3 [[[0, 0], [1, - 1 :: real]]] 1 2 2 \<and>
   mask_val example_attn = mask_val_default \<and> (0::nat) < 1 \<and> (0::nat) < 2 \<and>
   attn_pattern example_attn [[[0, 0], [1, - 1]]] ! 0 ! 0 ! 0 =
     softmax (map (\<lambda>k. if 0 < k then - 100000
                         else dot (project_heads (W_Q example_attn) (b_Q example_attn)
                                     [[[0, 0], [1, - 1]]] ! 0 ! 0 ! 0)
                                  (project_heads (W_K example_attn) (b_K example_attn)
                                     [[[0, 0], [1, - 1]]] ! 0 ! k ! 0)
                              / sqrt (real 1))
                [0..<2])"
proof -
  have h2: "shape3 [[[0, 0], [1, - 1 :: real]]] 1 2 2"
    by (simp add: shape3_def shape2_def)
  have h3: "mask_val example_attn = mask_val_default"
    by (simp add: example_attn_def mask_val_default_def)
  have h4: "(0::nat) < 1" and h5: "(0::nat) < 2" by simp_all
  note c = SelfAttention_scale_mask_softmax [OF wf_example_attn h2 h3 h4 h4 h5]
  show ?thesis
    by (intro conjI wf_example_attn h2 h3 h4 h5 conjunct1[OF c])
qed

subsection \<open>C4: causality\<close>




subsection \<open>C5: LayerNorm\<close>

text \<open>
  C5 says that \<open>LayerNorm.forward\<close> normalises with the biased variance (divisor
  \<open>d_model\<close>). The source calls \<open>var(dim=-1, keepdim=True)\<close>, whose divisor is
  \<open>d_model - 1\<close>. On the row \<open>[0, 2]\<close> with unit gains, zero bias and the default
  epsilon the source returns \<open>\<plusminus> 1 / sqrt (2 + 1e-5)\<close>, the specified formula
  \<open>\<plusminus> 1 / sqrt (1 + 1e-5)\<close>.
\<close>

theorem LayerNorm_row_unbiased_variance:
  "LayerNorm_row \<lparr>gains = [1, 1], bias = [0, 0], layer_norm_eps = 1 / 100000\<rparr> [0, 2]
     = [- 1 / sqrt (2 + 1 / 100000), 1 / sqrt (2 + 1 / 100000)] \<and>
   LayerNorm_row_spec \<lparr>gains = [1, 1], bias = [0, 0], layer_norm_eps = 1 / 100000\<rparr> [0, 2]
     = [- 1 / sqrt (1 + 1 / 100000), 1 / sqrt (1 + 1 / 100000)] \<and>
   LayerNorm_row \<lparr>gains = [1, 1], bias = [0, 0], layer_norm_eps = 1 / 100000\<rparr> [0, 2]
     \<noteq> LayerNorm_row_spec \<lparr>gains = [1, 1], bias = [0, 0], layer_norm_eps = 1 / 100000\<rparr> [0, 2]"
proof -
  let ?l = "\<lparr>gains = [1, 1], bias = [0, 0], layer_norm_eps = 1 / 100000\<rparr>"
  have a: "LayerNorm_row ?l [0, 2] = [- 1 / sqrt (2 + 1 / 100000), 1 / sqrt (2 + 1 / 100000)]"
    by (simp add: LayerNorm_row_def mean_def var_def add1_def Let_def)
  have b: "LayerNorm_row_spec ?l [0, 2] = [- 1 / sqrt (1 + 1 / 100000), 1 / sqrt (1 + 1 / 100000)]"
    by (simp add: LayerNorm_row_spec_def mean_def var_biased_spec_def)
  have "LayerNorm_row ?l [0, 2] \<noteq> LayerNorm_row_spec ?l [0, 2]"
    unfolding a b by simp
  with a b show ?thesis by blast
qed

subsection \<open>C6: gelu_new\<close>

text \<open>
  C6 says that \<open>gelu_new\<close> is the published formula with the coefficient 0.044715. The
  source has the coefficient 0.04715, and the two functions differ at the input 1.
\<close>

theorem gelu_new_coefficient_differs: "gelu_new 1 \<noteq> gelu_new_spec 1"
  by (simp add: gelu_new_def gelu_new_spec_def)

subsection \<open>C7: cross_entropy_lm\<close>

lemma length_log_softmax: "length (log_softmax xs) = length xs"
  by (simp add: log_softmax_def)

lemma log_softmax_nonpos:
  assumes "k < length xs"
  shows "log_softmax xs ! k \<le> 0"
proof -
  have pos: "0 < sum_list (map exp xs)"
    using assms by (intro sum_list_exp_pos) auto
  have "exp (xs ! k) \<le> sum_list (map exp xs)"
    using assms by (rule exp_le_sum_list_exp)
  then have "ln (exp (xs ! k)) \<le> ln (sum_list (map exp xs))"
    using pos by (simp del: ln_exp)
  then show ?thesis
    using assms by (simp add: log_softmax_def)
qed

lemma in_set_tl: "x \<in> set (tl xs) \<Longrightarrow> x \<in> set xs"
  by (cases xs) simp_all

lemma gather_rows_Inr:
  assumes rows: "\<forall>row \<in> set l. length row = d_vocab"
    and ids: "\<forall>t \<in> set tk. 0 \<le> t \<and> t < int d_vocab"
  shows "traverse (\<lambda>(row, i). gather_last row i) (zip (butlast l) (tl tk))
           = Inr (map (\<lambda>(row, i). row ! nat i) (zip (butlast l) (tl tk)))"
proof (rule traverse_Inr)
  fix ri assume mem0: "ri \<in> set (zip (butlast l) (tl tk))"
  obtain row i where ri: "ri = (row, i)" by (cases ri)
  have mem: "(row, i) \<in> set (zip (butlast l) (tl tk))"
    using mem0 by (simp add: ri)
  have "row \<in> set (butlast l)" "i \<in> set (tl tk)"
    using in_set_zipD[OF mem] by simp_all
  then have "row \<in> set l" "i \<in> set tk"
    by (auto dest: in_set_butlastD in_set_tl)
  then have "length row = d_vocab" "0 \<le> i \<and> i < int d_vocab"
    using rows ids by auto
  then show "(case ri of (row, i) \<Rightarrow> gather_last row i) = Inr (case ri of (row, i) \<Rightarrow> row ! nat i)"
    by (simp add: ri gather_last_def)
qed

lemma mean_gathered:
  assumes "length l = position" and "length tk = position" and "1 \<le> position"
  shows "mean (map (\<lambda>(row, i). row ! nat i) (zip (butlast l) (tl tk)))
           = (\<Sum>i<position - 1. l ! i ! nat (tk ! (i + 1))) / real (position - 1)"
proof -
  let ?g = "map (\<lambda>(row, i). row ! nat i) (zip (butlast l) (tl tk))"
  have len: "length ?g = position - 1"
    using assms by simp
  have nth: "?g ! i = l ! i ! nat (tk ! (i + 1))" if "i < position - 1" for i
    using that assms by (simp add: nth_butlast nth_tl)
  have "sum_list ?g = (\<Sum>i = 0..<length ?g. ?g ! i)"
    by (rule sum_list_sum_nth)
  also have "\<dots> = (\<Sum>i<position - 1. ?g ! i)"
    unfolding len by (simp add: atLeast0LessThan)
  also have "\<dots> = (\<Sum>i<position - 1. l ! i ! nat (tk ! (i + 1)))"
    using nth by (intro sum.cong) auto
  finally show ?thesis
    unfolding mean_def len by simp
qed

text \<open>
  C7: for logits of shape \<open>[batch, position, d_vocab]\<close> and target tokens of shape
  \<open>[batch, position]\<close> with ids in \<open>[0, d_vocab)\<close> and \<open>position \<ge> 2\<close>, \<open>cross_entropy_lm\<close>
  returns, for every sequence, the mean over the positions \<open>i < position - 1\<close> of the
  log-softmax of the logits at position \<open>i\<close> taken at token \<open>i + 1\<close>; the result has
  \<open>batch\<close> entries, and every entry is at most 0: the mean log-probability is not negated.
\<close>

theorem cross_entropy_lm_mean_log_prob:
  assumes lg: "shape3 logits batch position d_vocab"
    and tok: "valid_tokens d_vocab batch position tokens" and p2: "2 \<le> position"
  shows "cross_entropy_lm logits tokens =
           Inr (map (\<lambda>b. (\<Sum>i<position - 1. log_softmax (logits ! b ! i) ! nat (tokens ! b ! (i + 1)))
                          / real (position - 1)) [0..<batch]) \<and>
         length (map (\<lambda>b. (\<Sum>i<position - 1. log_softmax (logits ! b ! i) ! nat (tokens ! b ! (i + 1)))
                          / real (position - 1)) [0..<batch]) = batch \<and>
         (\<forall>b<batch. (\<Sum>i<position - 1. log_softmax (logits ! b ! i) ! nat (tokens ! b ! (i + 1)))
                          / real (position - 1) \<le> 0)"
proof -
  let ?lp = "map (map log_softmax) logits"
  let ?G = "\<lambda>(l, tk). map (\<lambda>(row, i). row ! nat i) (zip (butlast l) (tl tk))"
  have ll: "length logits = batch" and lt: "length tokens = batch"
    using lg tok by (simp_all add: shape3_iff valid_tokens_def shape2_iff)
  have lrow: "length (logits ! b) = position" "length (tokens ! b) = position" if "b < batch" for b
    using lg tok that by (auto simp: shape3_iff valid_tokens_def shape2_iff)
  have lvoc: "length (logits ! b ! i) = d_vocab" if "b < batch" "i < position" for b i
  proof -
    have "logits ! b \<in> set logits" using that ll by simp
    moreover have "logits ! b ! i \<in> set (logits ! b)" using that lrow by simp
    ultimately show ?thesis using lg by (simp add: shape3_iff)
  qed
  have idr: "0 \<le> tokens ! b ! i \<and> tokens ! b ! i < int d_vocab" if "b < batch" "i < position" for b i
    using tok that lt lrow(2)[OF that(1)] by (auto simp: valid_tokens_def list_all_length)
  have inner: "traverse (\<lambda>(row, i). gather_last row i) (zip (butlast l) (tl tk))
           = Inr (map (\<lambda>(row, i). row ! nat i) (zip (butlast l) (tl tk)))"
    if "(l, tk) \<in> set (zip ?lp tokens)" for l tk
  proof (rule gather_rows_Inr[where d_vocab = d_vocab])
    have l: "l \<in> set ?lp" and tk: "tk \<in> set tokens"
      using in_set_zipD[OF that] by simp_all
    show "\<forall>row \<in> set l. length row = d_vocab"
      using l lg by (auto simp: shape3_iff length_log_softmax)
    show "\<forall>t \<in> set tk. 0 \<le> t \<and> t < int d_vocab"
      using tk tok by (auto simp: valid_tokens_def list_all_iff)
  qed
  have outer: "traverse (\<lambda>(lp, tk). traverse (\<lambda>(row, i). gather_last row i) (zip (butlast lp) (tl tk)))
                (zip ?lp tokens) = Inr (map ?G (zip ?lp tokens))"
  proof (rule traverse_Inr)
    fix ltk assume mem0: "ltk \<in> set (zip ?lp tokens)"
    obtain l tk where ltk: "ltk = (l, tk)" by (cases ltk)
    have "(l, tk) \<in> set (zip ?lp tokens)" using mem0 by (simp add: ltk)
    then show "(case ltk of (lp, tk) \<Rightarrow> traverse (\<lambda>(row, i). gather_last row i) (zip (butlast lp) (tl tk)))
        = Inr (?G ltk)"
      using inner by (simp add: ltk)
  qed
  have means: "map mean (map ?G (zip ?lp tokens)) =
      map (\<lambda>b. (\<Sum>i<position - 1. log_softmax (logits ! b ! i) ! nat (tokens ! b ! (i + 1)))
                          / real (position - 1)) [0..<batch]"
  proof (rule nth_equalityI)
    show "length (map mean (map ?G (zip ?lp tokens))) =
        length (map (\<lambda>b. (\<Sum>i<position - 1. log_softmax (logits ! b ! i) ! nat (tokens ! b ! (i + 1)))
                          / real (position - 1)) [0..<batch])"
      by (simp add: ll lt)
  next
    fix b assume "b < length (map mean (map ?G (zip ?lp tokens)))"
    then have b: "b < batch" by (simp add: ll lt)
    have "mean (?G (?lp ! b, tokens ! b)) =
        (\<Sum>i<position - 1. ?lp ! b ! i ! nat (tokens ! b ! (i + 1))) / real (position - 1)"
      unfolding prod.case using b p2 by (intro mean_gathered) (simp_all add: lrow ll)
    also have "\<dots> = (\<Sum>i<position - 1. log_softmax (logits ! b ! i) ! nat (tokens ! b ! (i + 1)))
        / real (position - 1)"
      using b by (simp add: ll lrow)
    finally show "map mean (map ?G (zip ?lp tokens)) ! b =
        map (\<lambda>b. (\<Sum>i<position - 1. log_softmax (logits ! b ! i) ! nat (tokens ! b ! (i + 1)))
                          / real (position - 1)) [0..<batch] ! b"
      using b by (simp add: ll lt)
  qed
  have eq: "cross_entropy_lm logits tokens =
           Inr (map (\<lambda>b. (\<Sum>i<position - 1. log_softmax (logits ! b ! i) ! nat (tokens ! b ! (i + 1)))
                          / real (position - 1)) [0..<batch])"
    unfolding cross_entropy_lm_def Let_def outer using means by simp
  have nonpos: "(\<Sum>i<position - 1. log_softmax (logits ! b ! i) ! nat (tokens ! b ! (i + 1)))
                          / real (position - 1) \<le> 0" if b: "b < batch" for b
  proof -
    have "log_softmax (logits ! b ! i) ! nat (tokens ! b ! (i + 1)) \<le> 0" if "i < position - 1" for i
    proof (rule log_softmax_nonpos)
      have "i + 1 < position" "i < position" using that by simp_all
      then show "nat (tokens ! b ! (i + 1)) < length (logits ! b ! i)"
        using idr[OF b, of "i + 1"] lvoc[OF b, of i] by auto
    qed
    then have "(\<Sum>i<position - 1. log_softmax (logits ! b ! i) ! nat (tokens ! b ! (i + 1))) \<le> 0"
      by (intro sum_nonpos) simp
    then show ?thesis
      by (simp add: divide_nonpos_nonneg)
  qed
  show ?thesis
    using eq nonpos by simp
qed

text \<open>C7, witness: uniform logits over two tokens, one sequence of two positions.\<close>

theorem cross_entropy_lm_mean_log_prob_witness:
  "shape3 [[[0, 0], [0, 0 :: real]]] 1 2 2 \<and> valid_tokens 2 1 2 [[0, 1]] \<and> (2::nat) \<le> 2 \<and>
   cross_entropy_lm [[[0, 0], [0, 0]]] [[0, 1]] =
     Inr (map (\<lambda>b. (\<Sum>i<2 - 1. log_softmax ([[[0, 0], [0, 0]]] ! b ! i) ! nat ([[0, 1]] ! b ! (i + 1)))
                    / real (2 - 1)) [0..<1])"
proof -
  have h1: "shape3 [[[0, 0], [0, 0 :: real]]] 1 2 2"
    by (simp add: shape3_def shape2_def)
  have h2: "valid_tokens 2 1 2 [[0, 1]]"
    by (simp add: valid_tokens_def shape2_def)
  have h3: "(2::nat) \<le> 2" by simp
  note c = cross_entropy_lm_mean_log_prob [OF h1 h2 h3]
  show ?thesis
    by (intro conjI h1 h2 h3 conjunct1[OF c])
qed

subsection \<open>C8: PositionEmbedding\<close>

text \<open>
  C8 says that \<open>PositionEmbedding.forward\<close> raises when the position count exceeds
  \<open>max_ctx\<close>. Counterexample: with a table of two rows and three positions it returns the
  two rows of the table.
\<close>

theorem PositionEmbedding_forward_truncates:
  "PositionEmbedding_forward \<lparr>W_P = [[1, 2], [3, 4]]\<rparr> [[0, 0, 0]] = [[[1, 2], [3, 4]]]"
  by (simp add: PositionEmbedding_forward_def shape_1_def)

text \<open>
  C8 as amended: for a token tensor of shape \<open>[batch, position]\<close> with \<open>batch \<ge> 1\<close> and
  \<open>position > max_ctx\<close>, \<open>PositionEmbedding.forward\<close> raises nothing and returns the whole
  positional table replicated \<open>batch\<close> times, of shape \<open>[batch, max_ctx, d_model]\<close>.
\<close>

theorem PositionEmbedding_forward_too_long:
  assumes "shape2 (W_P self) max_ctx d_model" and "shape2 tokens batch position"
    and "1 \<le> batch" and "max_ctx < position"
  shows "PositionEmbedding_forward self tokens = replicate batch (W_P self) \<and>
         shape3 (PositionEmbedding_forward self tokens) batch max_ctx d_model"
  using assms
  by (cases tokens)
     (auto simp: PositionEmbedding_forward_def shape_1_def shape2_def shape3_def list_all_iff)

text \<open>C8, witness: a table of two rows, one sequence of three tokens.\<close>

theorem PositionEmbedding_forward_too_long_witness:
  "shape2 (W_P \<lparr>W_P = [[1, 2], [3, 4]]\<rparr>) 2 2 \<and> shape2 [[0, 0, 0 :: int]] 1 3 \<and> (1::nat) \<le> 1 \<and>
   (2::nat) < 3 \<and>
   PositionEmbedding_forward \<lparr>W_P = [[1, 2], [3, 4]]\<rparr> [[0, 0, 0]]
     = replicate 1 (W_P \<lparr>W_P = [[1, 2], [3, 4]]\<rparr>) \<and>
   shape3 (PositionEmbedding_forward \<lparr>W_P = [[1, 2], [3, 4]]\<rparr> [[0, 0, 0]]) 1 2 2"
proof -
  have h1: "shape2 (W_P \<lparr>W_P = [[1, 2], [3, 4]]\<rparr>) 2 2" by (simp add: shape2_def)
  have h2: "shape2 [[0, 0, 0 :: int]] 1 3" by (simp add: shape2_def)
  have h3: "(1::nat) \<le> 1" and h4: "(2::nat) < 3" by simp_all
  note c = PositionEmbedding_forward_too_long [OF h1 h2 h3 h4]
  show ?thesis
    by (intro conjI h1 h2 h3 h4 conjunct1[OF c] conjunct2[OF c])
qed

subsection \<open>C9: EmbeddingLayer\<close>

text \<open>
  C9 says that \<open>EmbeddingLayer.forward\<close> raises on every negative id. Counterexample:
  with a table of two rows the id \<open>-1\<close> returns the last row.
\<close>

theorem EmbeddingLayer_forward_negative_wraps:
  "EmbeddingLayer_forward \<lparr>W_E = [[1, 2], [3, 4]]\<rparr> [[- 1]] = Inr [[[3, 4]]]"
  by (simp add: EmbeddingLayer_forward_def index_row_def)

text \<open>
  C9 as amended: \<open>EmbeddingLayer.forward\<close> raises IndexError exactly when some id lies
  outside \<open>[-d_vocab, d_vocab)\<close>. Otherwise it returns, for every id, the row of the table
  at the id, a negative id \<open>t\<close> counting from the end (row \<open>t + d_vocab\<close>); the result has
  shape \<open>[batch, position, d_model]\<close> and the table is unchanged (the function has no
  state).
\<close>

theorem EmbeddingLayer_forward_rows:
  assumes "shape2 (W_E self) d_vocab d_model" and "shape2 tokens batch position"
  shows "(list_all (list_all (\<lambda>t. - int d_vocab \<le> t \<and> t < int d_vocab)) tokens \<longrightarrow>
            EmbeddingLayer_forward self tokens
              = Inr (map (map (\<lambda>t. W_E self ! nat (if t < 0 then t + int d_vocab else t))) tokens) \<and>
            shape3 (map (map (\<lambda>t. W_E self ! nat (if t < 0 then t + int d_vocab else t))) tokens)
              batch position d_model) \<and>
         (\<not> list_all (list_all (\<lambda>t. - int d_vocab \<le> t \<and> t < int d_vocab)) tokens \<longrightarrow>
            EmbeddingLayer_forward self tokens = Inl IndexError)"
proof -
  have len: "length (W_E self) = d_vocab" and rows: "\<And>i. i < d_vocab \<Longrightarrow> length (W_E self ! i) = d_model"
    using assms(1) by (auto simp: shape2_def list_all_length)
  have shape: "shape3 (map (map (\<lambda>t. W_E self ! nat (if t < 0 then t + int d_vocab else t))) tokens)
                 batch position d_model"
    if ok: "list_all (list_all (\<lambda>t. - int d_vocab \<le> t \<and> t < int d_vocab)) tokens"
  proof -
    have "length (W_E self ! nat (if t < 0 then t + int d_vocab else t)) = d_model"
      if "r \<in> set tokens" "t \<in> set r" for r t
    proof -
      have "- int d_vocab \<le> t \<and> t < int d_vocab"
        using ok that by (auto simp: list_all_iff)
      then have "nat (if t < 0 then t + int d_vocab else t) < d_vocab" by auto
      then show ?thesis by (rule rows)
    qed
    then show ?thesis
      using assms(2) by (auto simp: shape3_def shape2_def list_all_iff)
  qed
  show ?thesis
  proof (intro conjI impI)
    assume ok: "list_all (list_all (\<lambda>t. - int d_vocab \<le> t \<and> t < int d_vocab)) tokens"
    then show "EmbeddingLayer_forward self tokens
              = Inr (map (map (\<lambda>t. W_E self ! nat (if t < 0 then t + int d_vocab else t))) tokens)"
      using EmbeddingLayer_forward_Inr[of self tokens] by (simp add: len)
    show "shape3 (map (map (\<lambda>t. W_E self ! nat (if t < 0 then t + int d_vocab else t))) tokens)
              batch position d_model"
      by (rule shape[OF ok])
  next
    assume "\<not> list_all (list_all (\<lambda>t. - int d_vocab \<le> t \<and> t < int d_vocab)) tokens"
    then show "EmbeddingLayer_forward self tokens = Inl IndexError"
      using EmbeddingLayer_forward_Inl[of self tokens] by (simp add: len)
  qed
qed

text \<open>C9, witness: a table of two rows and the ids 0 and \<open>-1\<close>.\<close>

theorem EmbeddingLayer_forward_rows_witness:
  "shape2 (W_E \<lparr>W_E = [[1, 2], [3, 4]]\<rparr>) 2 2 \<and> shape2 [[0, - 1 :: int]] 1 2 \<and>
   EmbeddingLayer_forward \<lparr>W_E = [[1, 2], [3, 4]]\<rparr> [[0, - 1]] = Inr [[[1, 2], [3, 4]]] \<and>
   EmbeddingLayer_forward \<lparr>W_E = [[1, 2], [3, 4]]\<rparr> [[0, 2]] = Inl IndexError"
proof -
  have h1: "shape2 (W_E \<lparr>W_E = [[1, 2], [3, 4]]\<rparr>) 2 2" by (simp add: shape2_def)
  have h2: "shape2 [[0, - 1 :: int]] 1 2" by (simp add: shape2_def)
  have h3: "shape2 [[0, 2 :: int]] 1 2" by (simp add: shape2_def)
  have a: "EmbeddingLayer_forward \<lparr>W_E = [[1, 2], [3, 4]]\<rparr> [[0, - 1]] = Inr [[[1, 2], [3, 4]]]"
    using EmbeddingLayer_forward_rows [OF h1 h2] by simp
  have b: "EmbeddingLayer_forward \<lparr>W_E = [[1, 2], [3, 4]]\<rparr> [[0, 2]] = Inl IndexError"
    using EmbeddingLayer_forward_rows [OF h1 h3] by simp
  show ?thesis
    by (intro conjI h1 h2 a b)
qed

subsection \<open>C10: the constructor of Transformer\<close>

text \<open>
  C10: when the attribute \<open>num_blocks\<close> of the configuration is an integer,
  \<open>Transformer.__init__\<close> ends with an exception and has built no \<open>TransformerBlock\<close>; when
  the embedding and the positional embedding were built (two modules), the exception is the
  TypeError of iterating an integer. With the notebook's \<open>Config\<close>, which has no attribute
  \<open>num_blocks\<close>, the constructor builds the two embeddings and raises AttributeError.
\<close>

theorem Transformer_init_fails:
  "(c ''num_blocks'' = Some (PyInt n) \<longrightarrow>
      (\<exists>e. snd (Transformer_init c) = Some e \<and>
           \<not> list_ex is_block (fst (Transformer_init c)) \<and>
           (length (fst (Transformer_init c)) = 2 \<longrightarrow> e = TypeError))) \<and>
   Transformer_init Config =
     ([Built_EmbeddingLayer [50257, 256], Built_PositionEmbedding [512, 256]], Some AttributeError)"
proof (intro conjI impI)
  show "Transformer_init Config =
     ([Built_EmbeddingLayer [50257, 256], Built_PositionEmbedding [512, 256]], Some AttributeError)"
    by (simp add: Transformer_init_def getattr_def getattrs_def Config_attrs
          EmbeddingLayer_init_def PositionEmbedding_init_def torch_empty_def)
next
  assume nb: "c ''num_blocks'' = Some (PyInt n)"
  show "\<exists>e. snd (Transformer_init c) = Some e \<and>
           \<not> list_ex is_block (fst (Transformer_init c)) \<and>
           (length (fst (Transformer_init c)) = 2 \<longrightarrow> e = TypeError)"
  proof (cases "getattrs c [''d_vocab'', ''d_model'', ''init_std'']")
    case (Inl e)
    then show ?thesis by (simp add: Transformer_init_def)
  next
    case a1: (Inr a1)
    show ?thesis
    proof (cases "EmbeddingLayer_init (a1 ! 0) (a1 ! 1) (a1 ! 2)")
      case (Inl e)
      then show ?thesis using a1 by (simp add: Transformer_init_def)
    next
      case em: (Inr em)
      show ?thesis
      proof (cases "getattrs c [''max_ctx'', ''d_model'', ''init_std'']")
        case (Inl e)
        then show ?thesis using a1 em EmbeddingLayer_init_not_block[OF em]
          by (simp add: Transformer_init_def)
      next
        case a2: (Inr a2)
        show ?thesis
        proof (cases "PositionEmbedding_init (a2 ! 0) (a2 ! 1) (a2 ! 2)")
          case (Inl e)
          then show ?thesis using a1 em a2 EmbeddingLayer_init_not_block[OF em]
            by (simp add: Transformer_init_def)
        next
          case pe: (Inr pe)
          have "getattr c ''num_blocks'' = Inr (PyInt n)"
            using nb by (simp add: getattr_def)
          then show ?thesis
            using a1 em a2 pe EmbeddingLayer_init_not_block[OF em]
              PositionEmbedding_init_not_block[OF pe]
            by (simp add: Transformer_init_def)
        qed
      qed
    qed
  qed
qed

text \<open>C10, witness: the notebook's \<open>Config\<close> with \<open>num_blocks = 1\<close> added.\<close>

theorem Transformer_init_fails_witness:
  "(Config(''num_blocks'' \<mapsto> PyInt 1)) ''num_blocks'' = Some (PyInt 1) \<and>
   (\<exists>e. snd (Transformer_init (Config(''num_blocks'' \<mapsto> PyInt 1))) = Some e \<and>
        \<not> list_ex is_block (fst (Transformer_init (Config(''num_blocks'' \<mapsto> PyInt 1)))) \<and>
        (length (fst (Transformer_init (Config(''num_blocks'' \<mapsto> PyInt 1)))) = 2 \<longrightarrow> e = TypeError))"
  using Transformer_init_fails [of "Config(''num_blocks'' \<mapsto> PyInt 1)" 1] by simp

end
